theory Spec2Isabelle
  imports Complex_Main
begin

text \<open>
  A model of the class \<open>SmoothScroll\<close> of \<open>smooth-scroll.js\<close>: the instance with its
  fields, each method as a function from states to states, and the page around it
  (animation frames, timeouts, visibility, wheel events) as a trace of events.
\<close>

section \<open>JavaScript numbers\<close>

text \<open>
  The fields of \<open>SmoothScroll\<close> hold JavaScript numbers. A finite number is kept as the
  exact rational it stands for, and the operations on finite numbers are exact: the
  rounding of IEEE doubles after each operation and the sign of zero are not
  modelled. The two infinities and NaN are kept, because the code reaches them:
  \<open>1000 / null\<close> is \<open>Infinity\<close>.

  Where the exact value of an expression lies next to a boundary of \<open>Math.round\<close>,
  the double of the code can fall on the other side of it, and the code's result is
  then one rounding step away from the model's: for \<open>scrollDuration = 700\<close> and
  \<open>durationIncreaseFactor = 1.005\<close> the exact product is 703.5 and rounds to 704,
  the double product lies below 703.5 and rounds to 703; the speed variation can
  differ by 0.0001 and the scrolled offset by 0.1 in the same way. Whole numbers, and
  products and quotients away from such a boundary, are the same in both, and a
  rounding step never turns a sign into the opposite one. The statements on
  magnitudes below are either about such values (the default settings) or leave a
  margin of two rounding steps.
\<close>

datatype jsnum = Fin rat | PInf | NInf | NaN

fun jneg :: "jsnum \<Rightarrow> jsnum" where
  "jneg (Fin a) = Fin (- a)"
| "jneg PInf = NInf"
| "jneg NInf = PInf"
| "jneg NaN = NaN"

fun jadd :: "jsnum \<Rightarrow> jsnum \<Rightarrow> jsnum" where
  "jadd (Fin a) (Fin b) = Fin (a + b)"
| "jadd NaN _ = NaN"
| "jadd _ NaN = NaN"
| "jadd PInf NInf = NaN"
| "jadd NInf PInf = NaN"
| "jadd PInf _ = PInf"
| "jadd _ PInf = PInf"
| "jadd NInf _ = NInf"
| "jadd _ NInf = NInf"

definition jsub :: "jsnum \<Rightarrow> jsnum \<Rightarrow> jsnum" where
  "jsub a b = jadd a (jneg b)"

fun jmul :: "jsnum \<Rightarrow> jsnum \<Rightarrow> jsnum" where
  "jmul (Fin a) (Fin b) = Fin (a * b)"
| "jmul NaN _ = NaN"
| "jmul _ NaN = NaN"
| "jmul (Fin a) PInf = (if a = 0 then NaN else if 0 < a then PInf else NInf)"
| "jmul (Fin a) NInf = (if a = 0 then NaN else if 0 < a then NInf else PInf)"
| "jmul PInf (Fin b) = (if b = 0 then NaN else if 0 < b then PInf else NInf)"
| "jmul NInf (Fin b) = (if b = 0 then NaN else if 0 < b then NInf else PInf)"
| "jmul PInf PInf = PInf"
| "jmul PInf NInf = NInf"
| "jmul NInf PInf = NInf"
| "jmul NInf NInf = PInf"

text \<open>Division by zero: the zero is taken as \<open>+0\<close>, as \<open>null\<close> and a rounded count are.\<close>

fun jdiv :: "jsnum \<Rightarrow> jsnum \<Rightarrow> jsnum" where
  "jdiv (Fin a) (Fin b) =
     (if b \<noteq> 0 then Fin (a / b) else if a = 0 then NaN else if 0 < a then PInf else NInf)"
| "jdiv NaN _ = NaN"
| "jdiv _ NaN = NaN"
| "jdiv (Fin a) PInf = Fin 0"
| "jdiv (Fin a) NInf = Fin 0"
| "jdiv PInf (Fin b) = (if 0 \<le> b then PInf else NInf)"
| "jdiv NInf (Fin b) = (if 0 \<le> b then NInf else PInf)"
| "jdiv PInf PInf = NaN"
| "jdiv PInf NInf = NaN"
| "jdiv NInf PInf = NaN"
| "jdiv NInf NInf = NaN"

text \<open>\<open>Math.round\<close>: the nearest integer, a half rounded up.\<close>

fun jround :: "jsnum \<Rightarrow> jsnum" where
  "jround (Fin a) = Fin (of_int \<lfloor>a + 1 / 2\<rfloor>)"
| "jround PInf = PInf"
| "jround NInf = NInf"
| "jround NaN = NaN"

text \<open>\<open>Math.pow(x, 2)\<close>.\<close>

definition jpow2 :: "jsnum \<Rightarrow> jsnum" where
  "jpow2 x = jmul x x"

text \<open>\<open>a < b\<close> and \<open>a > b\<close>: false as soon as one side is NaN.\<close>

fun jlt :: "jsnum \<Rightarrow> jsnum \<Rightarrow> bool" where
  "jlt (Fin a) (Fin b) = (a < b)"
| "jlt NaN _ = False"
| "jlt _ NaN = False"
| "jlt _ NInf = False"
| "jlt NInf _ = True"
| "jlt PInf _ = False"
| "jlt _ PInf = True"

definition jgt :: "jsnum \<Rightarrow> jsnum \<Rightarrow> bool" where
  "jgt a b = jlt b a"

text \<open>\<open>a <= b\<close>, used in statements only.\<close>

definition jle :: "jsnum \<Rightarrow> jsnum \<Rightarrow> bool" where
  "jle a b = (a \<noteq> NaN \<and> b \<noteq> NaN \<and> \<not> jlt b a)"

text \<open>\<open>Math.abs\<close>, used in statements only.\<close>

fun jabs :: "jsnum \<Rightarrow> jsnum" where
  "jabs (Fin a) = Fin \<bar>a\<bar>"
| "jabs PInf = PInf"
| "jabs NInf = PInf"
| "jabs NaN = NaN"

text \<open>
  A field that holds \<open>null\<close> or a number is a \<open>jsnum option\<close>, \<open>None\<close> for \<open>null\<close>;
  in arithmetic and comparisons \<open>null\<close> converts to \<open>0\<close>.
\<close>

fun to_num :: "jsnum option \<Rightarrow> jsnum" where
  "to_num None = Fin 0"
| "to_num (Some x) = x"

text \<open>
  \<open>scrollDirection\<close> is the one field the code compares with \<open>undefined\<close>, so it
  keeps \<open>undefined\<close> and \<open>null\<close> apart.
\<close>

datatype direction = Undefined | Null | Dir int

fun dir_num :: "direction \<Rightarrow> jsnum" where
  "dir_num Undefined = NaN"
| "dir_num Null = Fin 0"
| "dir_num (Dir d) = Fin (of_int d)"

section \<open>The instance and the page it runs in\<close>

record settings =
  durationIncreaseFactor :: jsnum
  scrollSpeedMultiplier :: jsnum
  scrollDuration :: jsnum
  limitDuration :: jsnum
  enableLimitDuration :: bool

definition default_settings :: settings where
  "default_settings =
     \<lparr> durationIncreaseFactor = Fin (11 / 10),
       scrollSpeedMultiplier = Fin 12,
       scrollDuration = Fin 700,
       limitDuration = Fin 2500,
       enableLimitDuration = True \<rparr>"

text \<open>The local variables of one call of \<open>measureFrameRate\<close>, shared by its closures.\<close>

record measurement =
  time :: nat
  count :: nat
  run :: bool

text \<open>
  The functions handed to \<open>requestAnimationFrame\<close> and \<open>setTimeout\<close>; those of
  \<open>measureFrameRate\<close> carry the index of the call they belong to.
\<close>

datatype callback =
    PerformSmoothScrolling
  | CountFrames nat
  | StopCounting nat
  | NextMeasurement nat

text \<open>
  The fields of the instance, as the constructor declares them, then what the page
  holds for it: \<open>document.hidden\<close>, the closures of the calls of \<open>measureFrameRate\<close>,
  the callbacks waiting for the next animation frame, the pending timeouts with
  their delays, and the offsets passed to \<open>window.scrollBy\<close> so far.
\<close>

record smooth_scroll =
  settings :: settings
  stepTime :: "jsnum option"
  currentTime :: "jsnum option"
  scrollActive :: "bool option"
  scrollDirection :: direction
  growingDuration :: "jsnum option"
  cumulativeScrollQuantity :: "jsnum option"
  frameRate :: "jsnum option"
  frameRateValues :: "jsnum list"
  finalFrameRate :: "jsnum option"
  isTabActive :: "bool option"
  documentHidden :: bool
  measurements :: "measurement list"
  animationFrames :: "callback list"
  timeouts :: "(nat \<times> callback) list"
  scrolled :: "jsnum list"

section \<open>The scroll animation\<close>

text \<open>\<open>p[i]\<close>: past the end of the array it is \<open>undefined\<close>, NaN in arithmetic.\<close>

definition elem :: "jsnum list \<Rightarrow> nat \<Rightarrow> jsnum" where
  "elem p i = (if i < length p then p ! i else NaN)"

definition calculateBezierDerivative :: "jsnum \<Rightarrow> jsnum list \<Rightarrow> jsnum" where
  "calculateBezierDerivative t p =
     jadd
       (jadd
          (jmul (jmul (Fin 3) (jpow2 (jsub (Fin 1) t))) (jsub (elem p 1) (elem p 0)))
          (jmul (jmul (jmul (Fin 6) (jsub (Fin 1) t)) t) (jsub (elem p 2) (elem p 1))))
       (jmul (jmul (Fin 3) (jpow2 t)) (jsub (elem p 3) (elem p 2)))"

definition Px :: "jsnum list" where
  "Px = [Fin 0, Fin 1, Fin 1, Fin 3]"

definition Py :: "jsnum list" where
  "Py = [Fin 1, Fin 1, Fin 0, Fin 0]"

text \<open>
  The body of \<open>calculateSpeedVariation\<close> once \<open>t\<close> is computed. The quotient and the
  product by 10000 are exact here; the code's value can be one step of 0.0001 away
  from this one.
\<close>

definition speedVariationAt :: "jsnum \<Rightarrow> jsnum" where
  "speedVariationAt t =
     (let derivativePx = calculateBezierDerivative t Px;
          derivativePy = calculateBezierDerivative t Py
      in jdiv (jneg (jround (jmul (jdiv derivativePy derivativePx) (Fin 10000)))) (Fin 10000))"

text \<open>The quotient \<open>derivativePy / derivativePx\<close> at a finite \<open>t\<close>, for the statements.\<close>

definition ratio :: "rat \<Rightarrow> rat" where
  "ratio t = - (6 * ((1 - t) * t)) / (3 * ((1 - t) * (1 - t)) + 6 * (t * t))"

definition calculateSpeedVariation :: "smooth_scroll \<Rightarrow> jsnum" where
  "calculateSpeedVariation s =
     speedVariationAt (jdiv (to_num (currentTime s)) (to_num (growingDuration s)))"

text \<open>
  The offset \<open>performSmoothScrolling\<close> passes to \<open>window.scrollBy\<close>, with exact products
  as well: where \<open>smoothing * scrollSpeedMultiplier * 10\<close> is next to a half, the code's
  offset can be one step of 0.1 away from this one, never of the opposite sign.
\<close>

definition scrollQuantity :: "smooth_scroll \<Rightarrow> jsnum" where
  "scrollQuantity s =
     (let smoothing = calculateSpeedVariation s
      in jdiv (jround (jmul (jmul (jmul smoothing (scrollSpeedMultiplier (settings s)))
                                  (dir_num (scrollDirection s))) (Fin 10))) (Fin 10))"

definition performSmoothScrolling :: "smooth_scroll \<Rightarrow> smooth_scroll" where
  "performSmoothScrolling s =
     (let s1 = s\<lparr>scrollActive := Some True\<rparr>;
          s2 = s1\<lparr>scrolled := scrolled s1 @ [scrollQuantity s1]\<rparr>;
          s3 = s2\<lparr>currentTime := Some (jadd (to_num (currentTime s2)) (to_num (stepTime s2)))\<rparr>;
          s4 = (if jgt (to_num (currentTime s3)) (to_num (growingDuration s3))
                then s3\<lparr>scrollActive := Some False\<rparr> else s3)
      in if scrollActive s4 = Some True
         then s4\<lparr>animationFrames := animationFrames s4 @ [PerformSmoothScrolling]\<rparr>
         else s4)"

text \<open>
  \<open>event.deltaY > 0 ? 1 : -1\<close>, then the handler. Its first line compares
  \<open>scrollDirection\<close> with \<open>undefined\<close>; the comparison with the new direction is strict,
  so \<open>null\<close> differs from both directions.
\<close>

definition newDirection :: "rat \<Rightarrow> int" where
  "newDirection deltaY = (if 0 < deltaY then 1 else - 1)"

definition handleWheelEvent :: "rat \<Rightarrow> smooth_scroll \<Rightarrow> smooth_scroll" where
  "handleWheelEvent deltaY s =
     (let s1 = (if scrollDirection s = Undefined
                then s\<lparr>scrollDirection := Dir (newDirection deltaY)\<rparr> else s);
          newScrollDirection = newDirection deltaY;
          s2 =
            (if Dir newScrollDirection = scrollDirection s1 then
               (if scrollActive s1 = Some True then
                  (if enableLimitDuration (settings s1) then
                     (if jlt (to_num (growingDuration s1)) (limitDuration (settings s1))
                      then s1\<lparr>growingDuration :=
                             Some (jround (jmul (to_num (growingDuration s1))
                                                (durationIncreaseFactor (settings s1))))\<rparr>
                      else s1\<lparr>growingDuration := Some (limitDuration (settings s1))\<rparr>)
                   else s1\<lparr>growingDuration :=
                          Some (jround (jmul (to_num (growingDuration s1))
                                             (durationIncreaseFactor (settings s1))))\<rparr>)
                else s1\<lparr>currentTime := Some (Fin 0),
                        growingDuration := Some (scrollDuration (settings s1)),
                        cumulativeScrollQuantity := Some (Fin 0)\<rparr>)
             else s1\<lparr>growingDuration :=
                    Some (jround (jmul (scrollDuration (settings s1))
                                       (durationIncreaseFactor (settings s1)))),
                     cumulativeScrollQuantity := Some (Fin 0)\<rparr>);
          s3 = s2\<lparr>scrollDirection := Dir newScrollDirection\<rparr>;
          s4 = s3\<lparr>stepTime := Some (jround (jdiv (Fin 1000) (to_num (frameRate s3))))\<rparr>
      in if scrollActive s4 \<noteq> Some True
         then s4\<lparr>animationFrames := animationFrames s4 @ [PerformSmoothScrolling]\<rparr>
         else s4)"

section \<open>The frame-rate measurement\<close>

text \<open>
  \<open>countFrames\<close> of the call \<open>i\<close> of \<open>measureFrameRate\<close>. A callback exists only for
  a call that was made, so \<open>i\<close> is below the number of calls.
\<close>

definition countFrames :: "nat \<Rightarrow> smooth_scroll \<Rightarrow> smooth_scroll" where
  "countFrames i s =
     (if isTabActive s \<noteq> Some True then s
      else if length (measurements s) \<le> i then s
      else
        (let m = measurements s ! i;
             c = count m + 1;
             s1 = s\<lparr>measurements := (measurements s)[i := m\<lparr>count := c\<rparr>]\<rparr>
         in if run m
            then s1\<lparr>animationFrames := animationFrames s1 @ [CountFrames i]\<rparr>
            else
              (let r = jround (jdiv (jmul (Fin (of_nat c)) (Fin 1000)) (Fin (of_nat (time m))));
                   s2 = s1\<lparr>frameRate := Some r\<rparr>
               in if time m = 3000
                  then s2\<lparr>frameRateValues := frameRateValues s2 @ [r]\<rparr>
                  else s2)))"

definition measureFrameRate :: "nat \<Rightarrow> smooth_scroll \<Rightarrow> smooth_scroll" where
  "measureFrameRate t s =
     (if isTabActive s \<noteq> Some True then s
      else
        (let i = length (measurements s);
             s1 = s\<lparr>measurements := measurements s @ [\<lparr>time = t, count = 0, run = True\<rparr>]\<rparr>;
             s2 = s1\<lparr>timeouts := timeouts s1 @ [(t, StopCounting i)]\<rparr>;
             s3 = countFrames i s2
         in s3\<lparr>timeouts := timeouts s3 @ [(t + 100, NextMeasurement i)]\<rparr>))"

text \<open>The first timeout of \<open>measureFrameRate\<close>: \<open>run = false\<close>.\<close>

definition stopCounting :: "nat \<Rightarrow> smooth_scroll \<Rightarrow> smooth_scroll" where
  "stopCounting i s =
     (if length (measurements s) \<le> i then s
      else s\<lparr>measurements := (measurements s)[i := (measurements s ! i)\<lparr>run := False\<rparr>]\<rparr>)"

definition nextTime :: "nat \<Rightarrow> nat" where
  "nextTime t = (if t < 2000 then t * 2 else 3000)"

text \<open>
  \<open>reduce((a, b) => a + b)\<close> without an initial value; it throws on an empty array,
  and its one call is made with at least 3 elements.
\<close>

fun reduce_add :: "jsnum list \<Rightarrow> jsnum" where
  "reduce_add [] = NaN"
| "reduce_add (v # vs) = foldl jadd v vs"

text \<open>The second timeout of \<open>measureFrameRate\<close>, after \<open>time + 100\<close>.\<close>

definition nextMeasurement :: "nat \<Rightarrow> smooth_scroll \<Rightarrow> smooth_scroll" where
  "nextMeasurement i s =
     (if length (measurements s) \<le> i then s
      else
        (let m = measurements s ! i;
             t = nextTime (time m);
             s1 = s\<lparr>measurements := (measurements s)[i := m\<lparr>time := t\<rparr>]\<rparr>
         in if length (frameRateValues s1) < 3 then measureFrameRate t s1
            else s1\<lparr>finalFrameRate :=
                   Some (jround (jdiv (reduce_add (frameRateValues s1))
                                      (Fin (of_nat (length (frameRateValues s1))))))\<rparr>))"

definition handleTabVisibilityChange :: "smooth_scroll \<Rightarrow> smooth_scroll" where
  "handleTabVisibilityChange s =
     (if documentHidden s then s\<lparr>isTabActive := Some False\<rparr>
      else
        (let s1 = s\<lparr>isTabActive := Some True\<rparr>
         in if finalFrameRate s1 = None then measureFrameRate 500 s1 else s1))"

section \<open>Construction and events\<close>

text \<open>
  The constructor on a desktop user agent: the fields, then \<open>initialize\<close>, which calls
  \<open>handleTabVisibilityChange\<close> at once and attaches the wheel listeners. (On a mobile
  user agent no listener is attached and no handler ever runs. The toggle button
  only removes and restores the wheel listeners: while they are removed the page
  delivers no wheel event, and such traces are among those considered.)
\<close>

definition construct :: "settings \<Rightarrow> bool \<Rightarrow> smooth_scroll" where
  "construct opts hidden =
     handleTabVisibilityChange
       \<lparr> settings = opts,
         stepTime = None,
         currentTime = None,
         scrollActive = None,
         scrollDirection = Null,
         growingDuration = None,
         cumulativeScrollQuantity = None,
         frameRate = None,
         frameRateValues = [],
         finalFrameRate = None,
         isTabActive = None,
         documentHidden = hidden,
         measurements = [],
         animationFrames = [],
         timeouts = [],
         scrolled = [] \<rparr>"

fun run_callback :: "callback \<Rightarrow> smooth_scroll \<Rightarrow> smooth_scroll" where
  "run_callback PerformSmoothScrolling s = performSmoothScrolling s"
| "run_callback (CountFrames i) s = countFrames i s"
| "run_callback (StopCounting i) s = stopCounting i s"
| "run_callback (NextMeasurement i) s = nextMeasurement i s"

text \<open>
  What the page delivers, one event at a time and each run to completion: a wheel
  event with its \<open>deltaY\<close>; an animation frame, which runs the callbacks requested
  before it, in order; the firing of the pending timeout at a given position; a
  change of \<open>document.hidden\<close>. The order in which timeouts fire is the trace's, so
  every schedule of the browser is among the traces.
\<close>

datatype event = Wheel rat | AnimationFrame | Timeout nat | VisibilityChange bool

fun dispatch :: "smooth_scroll \<Rightarrow> event \<Rightarrow> smooth_scroll" where
  "dispatch s (Wheel deltaY) = handleWheelEvent deltaY s"
| "dispatch s AnimationFrame =
     foldl (\<lambda>s' cb. run_callback cb s') (s\<lparr>animationFrames := []\<rparr>) (animationFrames s)"
| "dispatch s (Timeout k) =
     (if k < length (timeouts s)
      then run_callback (snd (timeouts s ! k))
             (s\<lparr>timeouts := take k (timeouts s) @ drop (Suc k) (timeouts s)\<rparr>)
      else s)"
| "dispatch s (VisibilityChange h) = handleTabVisibilityChange (s\<lparr>documentHidden := h\<rparr>)"

definition replay :: "smooth_scroll \<Rightarrow> event list \<Rightarrow> smooth_scroll" where
  "replay s evs = foldl dispatch s evs"

text \<open>The value of \<open>growingDuration\<close> after each wheel event of a trace.\<close>

fun durations :: "smooth_scroll \<Rightarrow> event list \<Rightarrow> jsnum option list" where
  "durations s [] = []"
| "durations s (Wheel deltaY # evs) =
     growingDuration (dispatch s (Wheel deltaY)) # durations (dispatch s (Wheel deltaY)) evs"
| "durations s (e # evs) = durations (dispatch s e) evs"

text \<open>
  A page that stays visible and renders 60 frames a second: 28 frames, the timeout
  that ends the first window of 500 ms, and the frame that computes the rate,
  \<open>round(30 * 1000 / 500) = 60\<close>.
\<close>

definition calibration :: "event list" where
  "calibration = replicate 28 AnimationFrame @ [Timeout 0, AnimationFrame]"


text \<open>
  On the same page, a wheel tick handled before the frame rate is known, whose
  gesture ends at the next frame; then a tick that starts a gesture, a frame, and
  \<open>n\<close> further ticks.
\<close>

definition ticks :: "nat \<Rightarrow> event list" where
  "ticks n = Wheel 100 # calibration @ Wheel 100 # AnimationFrame # replicate n (Wheel 100)"

text \<open>The default settings with a \<open>scrollDuration\<close> of 2499.9 ms.\<close>

definition fractional_settings :: settings where
  "fractional_settings = default_settings\<lparr>scrollDuration := Fin (24999 / 10)\<rparr>"

text \<open>
  One measurement window on a visible page: \<open>n\<close> frames, the timeout that ends the
  counting, the frame that computes the rate, and the timeout that starts the next
  window. At 60 frames a second the first five windows have 28, 58, 118, 178 and
  178 such frames.
\<close>

definition window :: "nat \<Rightarrow> event list" where
  "window n = replicate n AnimationFrame @ [Timeout 0, AnimationFrame, Timeout 0]"

definition five_windows :: "event list" where
  "five_windows = window 28 @ window 58 @ window 118 @ window 178 @ window 178"



text \<open>The second window, interrupted after ten frames.\<close>

definition interrupted :: "event list" where
  "interrupted = window 28 @ replicate 10 AnimationFrame"

section \<open>Predicates of the statements\<close>






text \<open>
  The limit is enabled, \<open>scrollDuration\<close> and \<open>limitDuration\<close> are whole numbers with
  \<open>0 <= scrollDuration < limitDuration\<close>, and the growth factor is at least 1.
\<close>

definition whole_settings :: "settings \<Rightarrow> bool" where
  "whole_settings st =
     (enableLimitDuration st
      \<and> (\<exists>(d::int) (l::int) f. scrollDuration st = Fin (of_int d) \<and> limitDuration st = Fin (of_int l)
             \<and> durationIncreaseFactor st = Fin f \<and> 1 \<le> f \<and> 0 \<le> d \<and> d < l))"

text \<open>\<open>round((limitDuration - 1) * durationIncreaseFactor)\<close>.\<close>

definition overshoot :: "settings \<Rightarrow> jsnum" where
  "overshoot st = jround (jmul (jsub (limitDuration st) (Fin 1)) (durationIncreaseFactor st))"

text \<open>\<open>growingDuration\<close> is a whole number, at most \<open>overshoot\<close>.\<close>

definition bounded_duration :: "settings \<Rightarrow> smooth_scroll \<Rightarrow> bool" where
  "bounded_duration st s =
     (settings s = st
      \<and> (\<exists>k::int. to_num (growingDuration s) = Fin (of_int k)
             \<and> jle (Fin (of_int k)) (overshoot st)))"

text \<open>The fields and the pending callbacks of the frame-rate measurement.\<close>

definition estimator ::
  "smooth_scroll \<Rightarrow>
   bool option \<times> measurement list \<times> callback list \<times> (nat \<times> callback) list
     \<times> jsnum option \<times> jsnum list \<times> jsnum option" where
  "estimator s =
     (isTabActive s, measurements s, animationFrames s, timeouts s,
      frameRate s, frameRateValues s, finalFrameRate s)"

text \<open>\<open>round(count * 1000 / time)\<close>, as \<open>countFrames\<close> computes it.\<close>

definition rate :: "nat \<Rightarrow> nat \<Rightarrow> jsnum" where
  "rate c t = jround (jdiv (jmul (Fin (of_nat c)) (Fin 1000)) (Fin (of_nat t)))"

text \<open>
  A window of \<open>t\<close> ms has just started: its closure is the last one, it has counted
  one frame, its counting callback and its two timeouts are the only ones pending,
  and no final rate is set. \<open>samples\<close> is the list of retained rates once the
  window has counted \<open>n + 2\<close> frames.
\<close>

definition measuring ::
  "smooth_scroll \<Rightarrow> measurement list \<Rightarrow> nat \<Rightarrow> jsnum option \<Rightarrow> jsnum list \<Rightarrow> bool" where
  "measuring s ms t fr frv =
     (estimator s =
        (Some True, ms @ [\<lparr>time = t, count = 1, run = True\<rparr>], [CountFrames (length ms)],
         [(t, StopCounting (length ms)), (t + 100, NextMeasurement (length ms))], fr, frv, None))"

definition samples :: "nat \<Rightarrow> nat \<Rightarrow> jsnum list \<Rightarrow> jsnum list" where
  "samples n t frv = (if t = 3000 then frv @ [rate (n + 2) t] else frv)"

section \<open>The Bezier derivative and the speed variation\<close>

lemma bezier_Px_Fin:
  "calculateBezierDerivative (Fin t) Px = Fin (3 * ((1 - t) * (1 - t)) + 6 * (t * t))"
  by (simp add: calculateBezierDerivative_def Px_def elem_def jsub_def jpow2_def algebra_simps)

lemma bezier_Py_Fin:
  "calculateBezierDerivative (Fin t) Py = Fin (- (6 * ((1 - t) * t)))"
  by (simp add: calculateBezierDerivative_def Py_def elem_def jsub_def jpow2_def algebra_simps)

text \<open>
  C5. The claim: with \<open>Px = [0, 1, 1, 3]\<close> the derivative is 3 at \<open>t = 0\<close> and 0 at
  \<open>t = 1\<close>. At \<open>t = 1\<close> only the last term \<open>3 * t^2 * (p[3] - p[2])\<close> is left, and it is
  \<open>3 * (3 - 1) = 6\<close>.
\<close>

theorem bezier_Px_at_one_is_not_zero:
  "calculateBezierDerivative (Fin 1) Px \<noteq> Fin 0"
  by (simp add: bezier_Px_Fin)

text \<open>C5, amended: with \<open>Px\<close> the derivative is 3 at \<open>t = 0\<close> and 6 at \<open>t = 1\<close>.\<close>

theorem bezier_Px_boundary:
  "calculateBezierDerivative (Fin 0) Px = Fin 3 \<and> calculateBezierDerivative (Fin 1) Px = Fin 6"
  by (simp add: bezier_Px_Fin)

text \<open>The two derivatives as polynomials, and the speed variation at a finite \<open>t\<close>.\<close>

lemma dPx_pos: "(0::rat) < 3 * ((1 - t) * (1 - t)) + 6 * (t * t)"
proof (cases "t = 0")
  case True
  then show ?thesis by simp
next
  case False
  then have "0 < t * t" using zero_less_power2 [of t] by (simp add: power2_eq_square)
  moreover have "0 \<le> (1 - t) * (1 - t)" by simp
  ultimately show ?thesis by linarith
qed

lemma speedVariationAt_Fin:
  "speedVariationAt (Fin t) = Fin (- of_int \<lfloor>ratio t * 10000 + 1 / 2\<rfloor> / 10000)"
  using dPx_pos [of t]
  by (simp add: speedVariationAt_def bezier_Px_Fin bezier_Py_Fin ratio_def Let_def)

lemma ratio_cross:
  "- (6 * ((1 - t2) * t2)) * (3 * ((1 - t1) * (1 - t1)) + 6 * (t1 * t1))
   - - (6 * ((1 - t1) * t1)) * (3 * ((1 - t2) * (1 - t2)) + 6 * (t2 * t2))
   = 18 * ((t1 - t2) * (1 - t1 - t2 - t1 * t2))" for t1 t2 :: rat
  by (simp add: algebra_simps)

lemma ratio_mono:
  assumes "0 \<le> (t1 - t2) * (1 - t1 - t2 - t1 * t2)"
  shows "ratio t1 \<le> ratio t2"
proof -
  have "- (6 * ((1 - t1) * t1)) * (3 * ((1 - t2) * (1 - t2)) + 6 * (t2 * t2))
        \<le> - (6 * ((1 - t2) * t2)) * (3 * ((1 - t1) * (1 - t1)) + 6 * (t1 * t1))"
    using ratio_cross [of t2 t1] assms by linarith
  then show ?thesis
    unfolding ratio_def using dPx_pos [of t1] dPx_pos [of t2] by (simp add: field_simps)
qed

lemma speed_abs:
  assumes "0 \<le> t" "t \<le> 1"
  shows "jabs (speedVariationAt (Fin t)) = Fin (of_int (- \<lfloor>ratio t * 10000 + 1 / 2\<rfloor>) / 10000)"
proof -
  have "- (6 * ((1 - t) * t)) \<le> 0" using assms by simp
  then have "ratio t \<le> 0" unfolding ratio_def using dPx_pos [of t] by (simp add: divide_le_0_iff)
  then have "ratio t * 10000 + 1 / 2 < 1" by linarith
  then have "\<lfloor>ratio t * 10000 + 1 / 2\<rfloor> \<le> 0" by (simp add: floor_less_iff)
  then show ?thesis by (simp add: speedVariationAt_Fin)
qed

lemma speed_mono:
  assumes "0 \<le> t1" "t1 \<le> 1" "0 \<le> t2" "t2 \<le> 1"
    and "0 \<le> (t1 - t2) * (1 - t1 - t2 - t1 * t2)"
  shows "jle (jabs (speedVariationAt (Fin t2))) (jabs (speedVariationAt (Fin t1)))"
proof -
  have "ratio t1 \<le> ratio t2" using assms(5) by (rule ratio_mono)
  then have "ratio t1 * 10000 \<le> ratio t2 * 10000"
    by (rule mult_right_mono) simp
  then have "ratio t1 * 10000 + 1 / 2 \<le> ratio t2 * 10000 + 1 / 2"
    by (rule add_right_mono)
  then have "\<lfloor>ratio t1 * 10000 + 1 / 2\<rfloor> \<le> \<lfloor>ratio t2 * 10000 + 1 / 2\<rfloor>"
    by (rule floor_mono)
  then show ?thesis using assms(1-4) by (simp add: speed_abs jle_def)
qed

lemma within_two_steps:
  assumes "jle a b" "a = Fin x" "b = Fin y"
  shows "jlt a (jadd b (Fin (2 / 10000)))"
  using assms by (simp add: jle_def)

text \<open>
  C6. The claim: the magnitude of the speed variation is non-increasing on the whole
  of \<open>0 \<le> t < 1\<close>. It is 0 at \<open>t = 0\<close>, where the derivative of \<open>Py\<close> is 0, and 0.6667
  at \<open>t = 1 / 2\<close>.
\<close>

theorem speed_rises_from_zero:
  "\<not> jle (jabs (speedVariationAt (Fin (1 / 2)))) (jabs (speedVariationAt (Fin 0)))"
  by code_simp

text \<open>
  C6, amended: the magnitude is 0 at \<open>t = 0\<close>; up to \<open>t = sqrt 2 - 1\<close>, that is for
  \<open>0 \<le> t1 \<le> t2\<close> with \<open>t2^2 + 2 * t2 \<le> 1\<close>, it does not decrease, and from there on,
  for \<open>0 \<le> t1 \<le> t2 \<le> 1\<close> with \<open>1 \<le> t1^2 + 2 * t1\<close>, it does not increase, each by as
  much as 0.0002: \<open>|v(t1)| < |v(t2)| + 0.0002\<close> before the peak and
  \<open>|v(t2)| < |v(t1)| + 0.0002\<close> after it. The margin is less than two steps of the
  rounding to four decimals; it is there because the code computes the quotient in
  doubles, where a value next to a rounding boundary can land one step away from
  the exact one.
\<close>

theorem speed_profile:
  "speedVariationAt (Fin 0) = Fin 0
   \<and> (0 \<le> t1 \<and> t1 \<le> t2 \<and> t2 \<le> 1 \<and> 1 \<le> t1 * t1 + 2 * t1 \<longrightarrow>
      jlt (jabs (speedVariationAt (Fin t2)))
          (jadd (jabs (speedVariationAt (Fin t1))) (Fin (2 / 10000))))
   \<and> (0 \<le> t1 \<and> t1 \<le> t2 \<and> t2 * t2 + 2 * t2 \<le> 1 \<longrightarrow>
      jlt (jabs (speedVariationAt (Fin t1)))
          (jadd (jabs (speedVariationAt (Fin t2))) (Fin (2 / 10000))))"
proof (intro conjI impI)
  show "speedVariationAt (Fin 0) = Fin 0"
    by code_simp
next
  assume a: "0 \<le> t1 \<and> t1 \<le> t2 \<and> t2 \<le> 1 \<and> 1 \<le> t1 * t1 + 2 * t1"
  then have "t1 * t1 \<le> t1 * t2" by (intro mult_left_mono) auto
  then have "1 - t1 - t2 - t1 * t2 \<le> 0" using a by linarith
  moreover have "t1 - t2 \<le> 0" using a by simp
  ultimately have "t1 - t2 \<le> 0" and "1 - t1 - t2 - t1 * t2 \<le> 0" by simp_all
  then have "0 \<le> (t1 - t2) * (1 - t1 - t2 - t1 * t2)" by (rule mult_nonpos_nonpos)
  then have "jle (jabs (speedVariationAt (Fin t2))) (jabs (speedVariationAt (Fin t1)))"
    using a by (intro speed_mono) auto
  moreover have "0 \<le> t2" using a by simp
  ultimately show "jlt (jabs (speedVariationAt (Fin t2)))
          (jadd (jabs (speedVariationAt (Fin t1))) (Fin (2 / 10000)))"
    using a by (intro within_two_steps [OF _ speed_abs speed_abs]) simp_all
next
  assume a: "0 \<le> t1 \<and> t1 \<le> t2 \<and> t2 * t2 + 2 * t2 \<le> 1"
  then have "0 \<le> t2" by simp
  then have t2: "t2 \<le> 1" using a mult_nonneg_nonneg [of t2 t2] by linarith
  have "t1 * t2 \<le> t2 * t2" using a by (intro mult_right_mono) auto
  then have "0 \<le> 1 - t2 - t1 - t2 * t1" using a by (simp add: mult.commute)
  moreover have "0 \<le> t2 - t1" using a by simp
  ultimately have "0 \<le> t2 - t1" and "0 \<le> 1 - t2 - t1 - t2 * t1" by simp_all
  then have "0 \<le> (t2 - t1) * (1 - t2 - t1 - t2 * t1)" by (rule mult_nonneg_nonneg)
  then have "jle (jabs (speedVariationAt (Fin t1))) (jabs (speedVariationAt (Fin t2)))"
    using a t2 by (intro speed_mono) auto
  moreover have "t1 \<le> 1" using a t2 by simp
  ultimately show "jlt (jabs (speedVariationAt (Fin t1)))
          (jadd (jabs (speedVariationAt (Fin t2))) (Fin (2 / 10000)))"
    using a t2 \<open>0 \<le> t2\<close> by (intro within_two_steps [OF _ speed_abs speed_abs]) simp_all
qed

theorem speed_profile_witness:
  "jlt (jabs (speedVariationAt (Fin (3 / 4))))
       (jadd (jabs (speedVariationAt (Fin (1 / 2)))) (Fin (2 / 10000)))
   \<and> jlt (jabs (speedVariationAt (Fin (1 / 10))))
       (jadd (jabs (speedVariationAt (Fin (1 / 5)))) (Fin (2 / 10000)))"
  using speed_profile [of "1 / 2" "3 / 4", THEN conjunct2]
    speed_profile [of "1 / 10" "1 / 5", THEN conjunct2] by simp

section \<open>The first gesture of an instance\<close>

text \<open>
  C1. The claim: a wheel event that arrives while no gesture is active starts a
  gesture with \<open>currentTime = 0\<close> and \<open>growingDuration = scrollDuration\<close>, 700 for the
  first wheel event after construction with \<open>deltaY = 100\<close>. The code, at that input:
  the constructor sets \<open>scrollDirection\<close> to \<open>null\<close>, the handler's first line tests for
  \<open>undefined\<close>, so the event counts as a change of direction; \<open>growingDuration\<close> becomes
  \<open>round(700 * 1.1) = 770\<close> and \<open>currentTime\<close> stays \<open>null\<close>.
\<close>

theorem first_wheel_event_after_construction:
  "growingDuration (dispatch (construct default_settings False) (Wheel 100)) = Some (Fin 770)
   \<and> currentTime (dispatch (construct default_settings False) (Wheel 100)) = None
   \<and> scrollDirection (dispatch (construct default_settings False) (Wheel 100)) = Dir 1
   \<and> scrollActive (dispatch (construct default_settings False) (Wheel 100)) = None
   \<and> animationFrames (dispatch (construct default_settings False) (Wheel 100))
       = [CountFrames 0, PerformSmoothScrolling]"
  by code_simp

text \<open>
  C2. The claim: under the default settings six same-direction wheel ticks, the first
  starting a gesture and the others arriving while it is active, give the durations
  700, 770, 847, 932, 1025, 1128. The code, on a fresh instance whose frame rate has
  been measured as 60: the first tick takes the change-of-direction branch, and the
  six durations are 770, 847, 932, 1025, 1128, 1241. The claimed sequence is what the
  code gives once \<open>scrollDirection\<close> already holds the direction of the ticks: here
  after a first wheel event handled before the frame rate is known, whose gesture
  ends at its first frame.
\<close>

theorem six_ticks_after_construction:
  "durations (replay (construct default_settings False) calibration)
     [Wheel 100, AnimationFrame, Wheel 100, AnimationFrame, Wheel 100, AnimationFrame,
      Wheel 100, AnimationFrame, Wheel 100, AnimationFrame, Wheel 100]
   = [Some (Fin 770), Some (Fin 847), Some (Fin 932), Some (Fin 1025), Some (Fin 1128),
      Some (Fin 1241)]
   \<and> durations (replay (construct default_settings False) (Wheel 100 # calibration))
     [Wheel 100, AnimationFrame, Wheel 100, AnimationFrame, Wheel 100, AnimationFrame,
      Wheel 100, AnimationFrame, Wheel 100, AnimationFrame, Wheel 100]
   = [Some (Fin 700), Some (Fin 770), Some (Fin 847), Some (Fin 932), Some (Fin 1025),
      Some (Fin 1128)]"
  by code_simp

section \<open>What each handler changes\<close>

text \<open>
  The fields each function leaves as they are, the callbacks it adds, and the
  values it writes, read off its definition.
\<close>

lemma handleWheelEvent_stepTime:
  "stepTime (handleWheelEvent deltaY s) = Some (jround (jdiv (Fin 1000) (to_num (frameRate s))))"
  by (simp add: handleWheelEvent_def Let_def)

lemma countFrames_fields:
  "settings (countFrames i s) = settings s"
  "stepTime (countFrames i s) = stepTime s"
  "currentTime (countFrames i s) = currentTime s"
  "scrollActive (countFrames i s) = scrollActive s"
  "scrollDirection (countFrames i s) = scrollDirection s"
  "growingDuration (countFrames i s) = growingDuration s"
  "finalFrameRate (countFrames i s) = finalFrameRate s"
  "isTabActive (countFrames i s) = isTabActive s"
  "documentHidden (countFrames i s) = documentHidden s"
  "timeouts (countFrames i s) = timeouts s"
  "scrolled (countFrames i s) = scrolled s"
  "length (measurements (countFrames i s)) = length (measurements s)"
  by (simp_all add: countFrames_def Let_def)


lemma jround_not_NaN: "x \<noteq> NaN \<Longrightarrow> jround x \<noteq> NaN"
  by (cases x) auto


lemma measureFrameRate_fields:
  "settings (measureFrameRate t s) = settings s"
  "stepTime (measureFrameRate t s) = stepTime s"
  "currentTime (measureFrameRate t s) = currentTime s"
  "scrollActive (measureFrameRate t s) = scrollActive s"
  "scrollDirection (measureFrameRate t s) = scrollDirection s"
  "growingDuration (measureFrameRate t s) = growingDuration s"
  "finalFrameRate (measureFrameRate t s) = finalFrameRate s"
  "isTabActive (measureFrameRate t s) = isTabActive s"
  "documentHidden (measureFrameRate t s) = documentHidden s"
  "scrolled (measureFrameRate t s) = scrolled s"
  by (simp_all add: measureFrameRate_def Let_def countFrames_fields)



lemma stopCounting_fields:
  "settings (stopCounting i s) = settings s"
  "stepTime (stopCounting i s) = stepTime s"
  "currentTime (stopCounting i s) = currentTime s"
  "scrollActive (stopCounting i s) = scrollActive s"
  "scrollDirection (stopCounting i s) = scrollDirection s"
  "growingDuration (stopCounting i s) = growingDuration s"
  "frameRate (stopCounting i s) = frameRate s"
  "frameRateValues (stopCounting i s) = frameRateValues s"
  "finalFrameRate (stopCounting i s) = finalFrameRate s"
  "isTabActive (stopCounting i s) = isTabActive s"
  "animationFrames (stopCounting i s) = animationFrames s"
  "timeouts (stopCounting i s) = timeouts s"
  "scrolled (stopCounting i s) = scrolled s"
  by (simp_all add: stopCounting_def)

lemma nextMeasurement_fields:
  "settings (nextMeasurement i s) = settings s"
  "stepTime (nextMeasurement i s) = stepTime s"
  "currentTime (nextMeasurement i s) = currentTime s"
  "scrollActive (nextMeasurement i s) = scrollActive s"
  "scrollDirection (nextMeasurement i s) = scrollDirection s"
  "growingDuration (nextMeasurement i s) = growingDuration s"
  "isTabActive (nextMeasurement i s) = isTabActive s"
  "scrolled (nextMeasurement i s) = scrolled s"
  by (simp_all add: nextMeasurement_def Let_def measureFrameRate_fields)



lemma handleTabVisibilityChange_fields:
  "settings (handleTabVisibilityChange s) = settings s"
  "stepTime (handleTabVisibilityChange s) = stepTime s"
  "currentTime (handleTabVisibilityChange s) = currentTime s"
  "scrollActive (handleTabVisibilityChange s) = scrollActive s"
  "scrollDirection (handleTabVisibilityChange s) = scrollDirection s"
  "growingDuration (handleTabVisibilityChange s) = growingDuration s"
  "scrolled (handleTabVisibilityChange s) = scrolled s"
  by (simp_all add: handleTabVisibilityChange_def Let_def measureFrameRate_fields)






lemma performSmoothScrolling_fields:
  "settings (performSmoothScrolling s) = settings s"
  "stepTime (performSmoothScrolling s) = stepTime s"
  "scrollDirection (performSmoothScrolling s) = scrollDirection s"
  "growingDuration (performSmoothScrolling s) = growingDuration s"
  "frameRate (performSmoothScrolling s) = frameRate s"
  "frameRateValues (performSmoothScrolling s) = frameRateValues s"
  "finalFrameRate (performSmoothScrolling s) = finalFrameRate s"
  "isTabActive (performSmoothScrolling s) = isTabActive s"
  "measurements (performSmoothScrolling s) = measurements s"
  "timeouts (performSmoothScrolling s) = timeouts s"
  "currentTime (performSmoothScrolling s) = Some (jadd (to_num (currentTime s)) (to_num (stepTime s)))"
  by (simp_all add: performSmoothScrolling_def Let_def)

lemma handleWheelEvent_fields:
  "settings (handleWheelEvent d s) = settings s"
  "scrollActive (handleWheelEvent d s) = scrollActive s"
  "frameRate (handleWheelEvent d s) = frameRate s"
  "frameRateValues (handleWheelEvent d s) = frameRateValues s"
  "finalFrameRate (handleWheelEvent d s) = finalFrameRate s"
  "isTabActive (handleWheelEvent d s) = isTabActive s"
  "measurements (handleWheelEvent d s) = measurements s"
  "timeouts (handleWheelEvent d s) = timeouts s"
  "scrolled (handleWheelEvent d s) = scrolled s"
  "scrollDirection (handleWheelEvent d s) = Dir (newDirection d)"
  by (simp_all add: handleWheelEvent_def Let_def)







lemma floor_numeral_quotient:
  "\<lfloor>numeral a / numeral b :: rat\<rfloor> = numeral a div numeral b"
  using floor_divide_of_int_eq [of "numeral a" "numeral b", where ?'a = rat] by simp

lemma floor_neg_numeral_quotient:
  "\<lfloor>- (numeral a / numeral b) :: rat\<rfloor> = - numeral a div numeral b"
  using floor_divide_of_int_eq [of "- numeral a" "numeral b", where ?'a = rat] by simp

lemma replay_append: "replay s (xs @ ys) = replay (replay s xs) ys"
  by (simp add: replay_def)



section \<open>The frames of a gesture\<close>






section \<open>The step time\<close>

lemma jadd_PInf: "x \<noteq> NInf \<Longrightarrow> x \<noteq> NaN \<Longrightarrow> jadd x PInf = PInf"
  by (cases x) auto

lemma perform_infinite_step:
  assumes "stepTime s = Some PInf" "growingDuration s = Some (Fin g)"
    "currentTime s \<noteq> Some NInf" "currentTime s \<noteq> Some NaN"
  shows "scrollActive (performSmoothScrolling s) = Some False"
    and "currentTime (performSmoothScrolling s) = Some PInf"
    and "animationFrames (performSmoothScrolling s) = animationFrames s"
proof -
  have "jadd (to_num (currentTime s)) PInf = PInf"
    using assms(3,4) by (cases "currentTime s") (auto simp: jadd_PInf)
  then show "scrollActive (performSmoothScrolling s) = Some False"
    and "currentTime (performSmoothScrolling s) = Some PInf"
    and "animationFrames (performSmoothScrolling s) = animationFrames s"
    using assms(1,2) by (simp_all add: performSmoothScrolling_def Let_def jgt_def)
qed

text \<open>
  C9. The claim: a wheel event handled before any frame rate is known gives \<open>stepTime\<close>
  a finite default. The code: \<open>frameRate\<close> is still \<open>null\<close>, \<open>1000 / null\<close> is \<open>Infinity\<close>,
  and \<open>stepTime\<close> is \<open>Infinity\<close>.
\<close>

theorem step_time_without_frame_rate:
  "stepTime (dispatch (construct default_settings False) (Wheel 100)) = Some PInf"
  by code_simp

text \<open>
  C9, amended: every wheel event sets \<open>stepTime\<close> to \<open>round(1000 / frameRate)\<close>, with
  \<open>frameRate\<close> the rate last measured; while it is \<open>null\<close>, \<open>stepTime\<close> is \<open>Infinity\<close>, no
  default replaces it, and the animation step that follows sets \<open>currentTime\<close> to
  \<open>Infinity\<close>, ends the gesture and requests no further frame.
\<close>

theorem wheel_step_time:
  "stepTime (handleWheelEvent deltaY s) = Some (jround (jdiv (Fin 1000) (to_num (frameRate s))))
   \<and> (frameRate s = None \<longrightarrow> stepTime (handleWheelEvent deltaY s) = Some PInf)
   \<and> (frameRate s = None \<and> growingDuration (handleWheelEvent deltaY s) = Some (Fin g)
        \<and> currentTime (handleWheelEvent deltaY s) \<noteq> Some NInf
        \<and> currentTime (handleWheelEvent deltaY s) \<noteq> Some NaN \<longrightarrow>
      scrollActive (performSmoothScrolling (handleWheelEvent deltaY s)) = Some False
      \<and> currentTime (performSmoothScrolling (handleWheelEvent deltaY s)) = Some PInf
      \<and> animationFrames (performSmoothScrolling (handleWheelEvent deltaY s))
          = animationFrames (handleWheelEvent deltaY s))"
proof (intro conjI impI)
  show "stepTime (handleWheelEvent deltaY s) = Some (jround (jdiv (Fin 1000) (to_num (frameRate s))))"
    by (rule handleWheelEvent_stepTime)
next
  assume "frameRate s = None"
  then show "stepTime (handleWheelEvent deltaY s) = Some PInf"
    by (simp add: handleWheelEvent_stepTime)
next
  assume a: "frameRate s = None \<and> growingDuration (handleWheelEvent deltaY s) = Some (Fin g)
        \<and> currentTime (handleWheelEvent deltaY s) \<noteq> Some NInf
        \<and> currentTime (handleWheelEvent deltaY s) \<noteq> Some NaN"
  then have st: "stepTime (handleWheelEvent deltaY s) = Some PInf"
    by (simp add: handleWheelEvent_stepTime)
  from a show "scrollActive (performSmoothScrolling (handleWheelEvent deltaY s)) = Some False"
    by (intro perform_infinite_step(1) [OF st]) auto
  from a show "currentTime (performSmoothScrolling (handleWheelEvent deltaY s)) = Some PInf"
    by (intro perform_infinite_step(2) [OF st]) auto
  from a show "animationFrames (performSmoothScrolling (handleWheelEvent deltaY s))
          = animationFrames (handleWheelEvent deltaY s)"
    by (intro perform_infinite_step(3) [OF st]) auto
qed

theorem wheel_step_time_witness:
  "frameRate (construct default_settings False) = None
   \<and> stepTime (handleWheelEvent 100 (construct default_settings False)) = Some PInf
   \<and> scrollActive (performSmoothScrolling (handleWheelEvent 100 (construct default_settings False)))
       = Some False"
proof -
  have 1: "frameRate (construct default_settings False) = None" by code_simp
  have 2: "growingDuration (handleWheelEvent 100 (construct default_settings False)) = Some (Fin 770)"
    by code_simp
  have 3: "currentTime (handleWheelEvent 100 (construct default_settings False)) = None"
    by code_simp
  show ?thesis
    using wheel_step_time [of 100 "construct default_settings False" 770] 1 2 3 by simp
qed

section \<open>The numbers stay numbers\<close>

text \<open>
  Under settings with finite durations no event makes \<open>currentTime\<close>, \<open>stepTime\<close> or
  \<open>frameRate\<close> NaN, and \<open>growingDuration\<close> stays finite.
\<close>

lemma jround_jmul_Fin: "\<exists>r. jround (jmul (Fin a) (Fin b)) = Fin r"
  by simp








lemma replay_snoc: "replay s (evs @ [e]) = dispatch (replay s evs) e"
  by (simp add: replay_def)


section \<open>Elapsed time and duration of an active gesture\<close>
















section \<open>A wheel event in the other direction\<close>







section \<open>The growth of the duration under the limit\<close>

lemma handleWheelEvent_grow:
  assumes "scrollActive s = Some True" "scrollDirection s = Dir (newDirection deltaY)"
    "enableLimitDuration (settings s)"
  shows "jlt (to_num (growingDuration s)) (limitDuration (settings s)) \<Longrightarrow>
         growingDuration (handleWheelEvent deltaY s)
         = Some (jround (jmul (to_num (growingDuration s)) (durationIncreaseFactor (settings s))))"
    and "\<not> jlt (to_num (growingDuration s)) (limitDuration (settings s)) \<Longrightarrow>
         growingDuration (handleWheelEvent deltaY s) = Some (limitDuration (settings s))"
  using assms by (simp_all add: handleWheelEvent_def Let_def)

lemma handleWheelEvent_duration_cases:
  "growingDuration (handleWheelEvent deltaY s)
     = Some (jround (jmul (to_num (growingDuration s)) (durationIncreaseFactor (settings s))))
       \<and> (enableLimitDuration (settings s) \<longrightarrow>
            jlt (to_num (growingDuration s)) (limitDuration (settings s)))
   \<or> growingDuration (handleWheelEvent deltaY s) = Some (limitDuration (settings s))
       \<and> \<not> jlt (to_num (growingDuration s)) (limitDuration (settings s))
   \<or> growingDuration (handleWheelEvent deltaY s) = Some (scrollDuration (settings s))
   \<or> growingDuration (handleWheelEvent deltaY s)
     = Some (jround (jmul (scrollDuration (settings s)) (durationIncreaseFactor (settings s))))"
  by (simp add: handleWheelEvent_def Let_def)

lemma round_mono:
  fixes x y :: rat
  shows "x \<le> y \<Longrightarrow> \<lfloor>x + 1 / 2\<rfloor> \<le> \<lfloor>y + 1 / 2\<rfloor>"
  by (intro floor_mono) simp

lemma bounded_handleWheelEvent:
  assumes "whole_settings st" "bounded_duration st s"
  shows "bounded_duration st (handleWheelEvent deltaY s)"
proof -
  obtain d l :: int and f where st: "enableLimitDuration st" "scrollDuration st = Fin (of_int d)"
    "limitDuration st = Fin (of_int l)" "durationIncreaseFactor st = Fin f" "1 \<le> f" "0 \<le> d" "d < l"
    using assms(1) by (auto simp add: whole_settings_def)
  let ?b = "\<lfloor>rat_of_int (l - 1) * f + 1 / 2\<rfloor>"
  have ov: "overshoot st = Fin (of_int ?b)"
    using st by (simp add: overshoot_def jsub_def)
  have s: "settings s = st" using assms(2) by (simp add: bounded_duration_def)
  obtain k :: int where k: "to_num (growingDuration s) = Fin (of_int k)" "k \<le> ?b"
    using assms(2) ov by (auto simp add: bounded_duration_def jle_def)
  have l1: "rat_of_int (l - 1) \<le> rat_of_int (l - 1) * f"
    using st(5-7) by (simp add: mult_le_cancel_left1)
  then have lb: "l - 1 \<le> ?b" by (simp add: le_floor_iff)
  have "\<exists>k'::int. growingDuration (handleWheelEvent deltaY s) = Some (Fin (of_int k')) \<and> k' \<le> ?b"
    using handleWheelEvent_duration_cases [of deltaY s]
  proof (elim disjE conjE)
    assume g: "growingDuration (handleWheelEvent deltaY s)
       = Some (jround (jmul (to_num (growingDuration s)) (durationIncreaseFactor (settings s))))"
      and "enableLimitDuration (settings s) \<longrightarrow>
            jlt (to_num (growingDuration s)) (limitDuration (settings s))"
    then have "k < l" using s st k(1) by simp
    then have "rat_of_int k \<le> rat_of_int (l - 1)" by simp
    then have "rat_of_int k * f \<le> rat_of_int (l - 1) * f"
      using st(5) by (intro mult_right_mono) simp_all
    then have "\<lfloor>rat_of_int k * f + 1 / 2\<rfloor> \<le> ?b" by (rule round_mono)
    then show ?thesis using g s st k(1) by simp
  next
    assume g: "growingDuration (handleWheelEvent deltaY s) = Some (limitDuration (settings s))"
      and "\<not> jlt (to_num (growingDuration s)) (limitDuration (settings s))"
    then have "l \<le> k" using s st k(1) by simp
    then show ?thesis using g s st k(2) by (intro exI [of _ l]) simp
  next
    assume "growingDuration (handleWheelEvent deltaY s) = Some (scrollDuration (settings s))"
    then show ?thesis using s st lb by (intro exI [of _ d]) simp
  next
    assume g: "growingDuration (handleWheelEvent deltaY s)
       = Some (jround (jmul (scrollDuration (settings s)) (durationIncreaseFactor (settings s))))"
    have "rat_of_int d \<le> rat_of_int (l - 1)" using st(7) by simp
    then have "rat_of_int d * f \<le> rat_of_int (l - 1) * f"
      using st(5) by (intro mult_right_mono) simp_all
    then have "\<lfloor>rat_of_int d * f + 1 / 2\<rfloor> \<le> ?b" by (rule round_mono)
    then show ?thesis using g s st by simp
  qed
  then show ?thesis using s ov
    by (auto simp add: bounded_duration_def handleWheelEvent_fields jle_def)
qed

lemma bounded_run_callback:
  "bounded_duration st s \<Longrightarrow> bounded_duration st (run_callback cb s)"
  by (cases cb)
     (simp_all add: bounded_duration_def performSmoothScrolling_fields countFrames_fields
        stopCounting_fields nextMeasurement_fields)

lemma bounded_callbacks:
  "bounded_duration st s \<Longrightarrow> bounded_duration st (foldl (\<lambda>s' cb. run_callback cb s') s cbs)"
  by (induction cbs arbitrary: s) (simp_all add: bounded_run_callback)

lemma bounded_dispatch:
  assumes "whole_settings st" "bounded_duration st s"
  shows "bounded_duration st (dispatch s e)"
proof (cases e)
  case (Wheel d)
  then show ?thesis using assms by (simp add: bounded_handleWheelEvent)
next
  case AnimationFrame
  have "bounded_duration st (s\<lparr>animationFrames := []\<rparr>)"
    using assms(2) by (simp add: bounded_duration_def)
  then show ?thesis using AnimationFrame by (simp add: bounded_callbacks)
next
  case (Timeout k)
  have "bounded_duration st (s\<lparr>timeouts := ts\<rparr>)" for ts
    using assms(2) by (simp add: bounded_duration_def)
  then show ?thesis using Timeout assms(2) by (simp add: bounded_run_callback)
next
  case (VisibilityChange h)
  then show ?thesis using assms(2)
    by (simp add: bounded_duration_def handleTabVisibilityChange_fields)
qed

lemma bounded_construct:
  assumes "whole_settings st"
  shows "bounded_duration st (construct st h)"
proof -
  obtain d l :: int and f where st: "limitDuration st = Fin (of_int l)"
    "durationIncreaseFactor st = Fin f" "1 \<le> f" "0 \<le> d" "d < l"
    using assms by (auto simp add: whole_settings_def)
  have "0 \<le> rat_of_int (l - 1) * f" using st(3-5) by (intro mult_nonneg_nonneg) simp_all
  then have "0 \<le> \<lfloor>rat_of_int (l - 1) * f + 1 / 2\<rfloor>" by (simp add: le_floor_iff)
  then have "jle (Fin (of_int 0)) (overshoot st)"
    using st(1,2) by (simp add: overshoot_def jsub_def jle_def)
  then show ?thesis
    unfolding bounded_duration_def
    by (intro conjI exI [of _ 0]) (simp_all add: construct_def handleTabVisibilityChange_fields)
qed

lemma bounded_replay:
  "whole_settings st \<Longrightarrow> bounded_duration st (replay (construct st h) evs)"
  by (induction evs rule: rev_induct)
     (simp_all add: replay_snoc bounded_dispatch, simp add: replay_def bounded_construct)

lemma whole_default_settings: "whole_settings default_settings"
proof -
  have "scrollDuration default_settings = Fin (of_int 700)
      \<and> limitDuration default_settings = Fin (of_int 2500)
      \<and> durationIncreaseFactor default_settings = Fin (11 / 10)
      \<and> (1::rat) \<le> 11 / 10 \<and> (0::int) \<le> 700 \<and> (700::int) < 2500"
    by (simp add: default_settings_def)
  then have "\<exists>(d::int) (l::int) f. scrollDuration default_settings = Fin (of_int d)
      \<and> limitDuration default_settings = Fin (of_int l)
      \<and> durationIncreaseFactor default_settings = Fin f \<and> 1 \<le> f \<and> 0 \<le> d \<and> d < l"
    by blast
  then show ?thesis by (simp add: whole_settings_def default_settings_def)
qed

lemma overshoot_default: "overshoot default_settings = Fin 2749"
  by (simp add: overshoot_def default_settings_def jsub_def floor_numeral_quotient)

text \<open>
  C10. The claim: with the limit enabled, \<open>totalDuration\<close> is at most
  \<open>round((limitDuration - 1) * durationIncreaseFactor)\<close>, and with the defaults the 15th
  consecutive tick in one direction yields 2661. The bound is not kept by every
  configuration: with a \<open>scrollDuration\<close> of 2499.9 ms, below the limit of 2500, the
  first wheel event of an instance gives \<open>round(2499.9 * 1.1) = 2750\<close>, and so does the
  second tick of a gesture that started at 2499.9, while the bound is 2749. And on a
  new instance with the default settings the first tick gives 770, so that 2661 is
  the value after the 14th tick and 2500 after the 15th.
\<close>

theorem bound_with_fractional_duration:
  "growingDuration (dispatch (construct fractional_settings False) (Wheel 100)) = Some (Fin 2750)
   \<and> durations (replay (construct fractional_settings False) (Wheel 100 # calibration))
        [Wheel 100, AnimationFrame, Wheel 100]
      = [Some (Fin (24999 / 10)), Some (Fin 2750)]
   \<and> enableLimitDuration fractional_settings
   \<and> jround (jmul (jsub (limitDuration fractional_settings) (Fin 1))
                  (durationIncreaseFactor fractional_settings)) = Fin 2749
   \<and> durations (replay (construct default_settings False) calibration)
        (Wheel 100 # AnimationFrame # replicate 14 (Wheel 100))
      = [Some (Fin 770), Some (Fin 847), Some (Fin 932), Some (Fin 1025), Some (Fin 1128),
         Some (Fin 1241), Some (Fin 1365), Some (Fin 1502), Some (Fin 1652), Some (Fin 1817),
         Some (Fin 1999), Some (Fin 2199), Some (Fin 2419), Some (Fin 2661), Some (Fin 2500)]"
  by code_simp

text \<open>
  C10, amended: with the limit enabled, a wheel tick in the gesture's direction that
  arrives while it is active multiplies \<open>growingDuration\<close> by the factor and rounds
  whenever it is below \<open>limitDuration\<close>, without clamping the product; at or above the
  limit the tick sets it to \<open>limitDuration\<close>. Under the default settings, in a gesture
  whose first tick starts at 700 (\<open>scrollDirection\<close> holds the ticks' direction already,
  after an earlier wheel event), the 15th tick gives \<open>round(2419 * 1.1) = 2661\<close> and the
  16th gives 2500. For all settings with the limit enabled, whole numbers as
  \<open>scrollDuration\<close> and \<open>limitDuration\<close>, \<open>0 <= scrollDuration < limitDuration\<close> and a
  factor of at least 1, every state reached from the constructor has
  \<open>growingDuration <= round((limitDuration - 1) * durationIncreaseFactor)\<close>, which is
  2749 under the default settings.
\<close>

theorem limit_overshoot:
  "(enableLimitDuration (settings s) \<and> scrollActive s = Some True
      \<and> scrollDirection s = Dir (newDirection deltaY)
      \<and> jlt (to_num (growingDuration s)) (limitDuration (settings s)) \<longrightarrow>
    growingDuration (handleWheelEvent deltaY s)
      = Some (jround (jmul (to_num (growingDuration s)) (durationIncreaseFactor (settings s)))))
   \<and> (enableLimitDuration (settings s) \<and> scrollActive s = Some True
      \<and> scrollDirection s = Dir (newDirection deltaY)
      \<and> \<not> jlt (to_num (growingDuration s)) (limitDuration (settings s)) \<longrightarrow>
    growingDuration (handleWheelEvent deltaY s) = Some (limitDuration (settings s)))
   \<and> durations (replay (construct default_settings False) (Wheel 100 # calibration))
         (Wheel 100 # AnimationFrame # replicate 15 (Wheel 100))
       = [Some (Fin 700), Some (Fin 770), Some (Fin 847), Some (Fin 932), Some (Fin 1025),
          Some (Fin 1128), Some (Fin 1241), Some (Fin 1365), Some (Fin 1502), Some (Fin 1652),
          Some (Fin 1817), Some (Fin 1999), Some (Fin 2199), Some (Fin 2419), Some (Fin 2661),
          Some (Fin 2500)]
   \<and> (whole_settings st \<longrightarrow>
        jle (to_num (growingDuration (replay (construct st hidden) evs)))
            (jround (jmul (jsub (limitDuration st) (Fin 1)) (durationIncreaseFactor st))))
   \<and> jround (jmul (jsub (limitDuration default_settings) (Fin 1))
                  (durationIncreaseFactor default_settings)) = Fin 2749"
proof (intro conjI impI)
  assume "enableLimitDuration (settings s) \<and> scrollActive s = Some True
      \<and> scrollDirection s = Dir (newDirection deltaY)
      \<and> jlt (to_num (growingDuration s)) (limitDuration (settings s))"
  then show "growingDuration (handleWheelEvent deltaY s)
      = Some (jround (jmul (to_num (growingDuration s)) (durationIncreaseFactor (settings s))))"
    by (simp add: handleWheelEvent_grow)
next
  assume "enableLimitDuration (settings s) \<and> scrollActive s = Some True
      \<and> scrollDirection s = Dir (newDirection deltaY)
      \<and> \<not> jlt (to_num (growingDuration s)) (limitDuration (settings s))"
  then show "growingDuration (handleWheelEvent deltaY s) = Some (limitDuration (settings s))"
    by (simp add: handleWheelEvent_grow)
next
  show "durations (replay (construct default_settings False) (Wheel 100 # calibration))
         (Wheel 100 # AnimationFrame # replicate 15 (Wheel 100))
       = [Some (Fin 700), Some (Fin 770), Some (Fin 847), Some (Fin 932), Some (Fin 1025),
          Some (Fin 1128), Some (Fin 1241), Some (Fin 1365), Some (Fin 1502), Some (Fin 1652),
          Some (Fin 1817), Some (Fin 1999), Some (Fin 2199), Some (Fin 2419), Some (Fin 2661),
          Some (Fin 2500)]"
    by code_simp
next
  assume "whole_settings st"
  then have "bounded_duration st (replay (construct st hidden) evs)" by (rule bounded_replay)
  then show "jle (to_num (growingDuration (replay (construct st hidden) evs)))
            (jround (jmul (jsub (limitDuration st) (Fin 1)) (durationIncreaseFactor st)))"
    by (auto simp add: bounded_duration_def overshoot_def)
next
  show "jround (jmul (jsub (limitDuration default_settings) (Fin 1))
                  (durationIncreaseFactor default_settings)) = Fin 2749"
    using overshoot_default by (simp add: overshoot_def)
qed

lemma after_ticks_13:
  "replay (construct default_settings False) (ticks 13) =
   \<lparr>settings = default_settings,
    stepTime = Some (Fin 17), currentTime = Some (Fin 17),
    scrollActive = Some True, scrollDirection = Dir 1,
    growingDuration = Some (Fin 2419),
    cumulativeScrollQuantity = Some (Fin 0), frameRate = Some (Fin 60),
    frameRateValues = [], finalFrameRate = None, isTabActive = Some True,
    documentHidden = False,
    measurements = [\<lparr>time = 500, count = 30, run = False\<rparr>],
    animationFrames = [PerformSmoothScrolling],
    timeouts = [(600, NextMeasurement 0)], scrolled = [Fin 0, Fin 0]\<rparr>"
  by code_simp

lemma after_ticks_14:
  "replay (construct default_settings False) (ticks 14) =
   \<lparr>settings = default_settings,
    stepTime = Some (Fin 17), currentTime = Some (Fin 17),
    scrollActive = Some True, scrollDirection = Dir 1,
    growingDuration = Some (Fin 2661),
    cumulativeScrollQuantity = Some (Fin 0), frameRate = Some (Fin 60),
    frameRateValues = [], finalFrameRate = None, isTabActive = Some True,
    documentHidden = False,
    measurements = [\<lparr>time = 500, count = 30, run = False\<rparr>],
    animationFrames = [PerformSmoothScrolling],
    timeouts = [(600, NextMeasurement 0)], scrolled = [Fin 0, Fin 0]\<rparr>"
  by code_simp

theorem limit_overshoot_witness:
  "growingDuration (replay (construct default_settings False) (ticks 13)) = Some (Fin 2419)
   \<and> growingDuration (handleWheelEvent 100 (replay (construct default_settings False) (ticks 13)))
       = Some (Fin 2661)
   \<and> growingDuration (handleWheelEvent 100 (replay (construct default_settings False) (ticks 14)))
       = Some (Fin 2500)
   \<and> jle (to_num (growingDuration (replay (construct default_settings False) (ticks 14))))
          (Fin 2749)"
proof -
  let ?s13 = "replay (construct default_settings False) (ticks 13)"
  let ?s14 = "replay (construct default_settings False) (ticks 14)"
  note t13 = limit_overshoot [where s = ?s13 and deltaY = 100 and st = default_settings
      and hidden = False and evs = "ticks 14"]
  note t14 = limit_overshoot [where s = ?s14 and deltaY = 100 and st = default_settings
      and hidden = False and evs = "ticks 14"]
  have "growingDuration (handleWheelEvent 100 ?s13) = Some (Fin 2661)"
    using t13 [THEN conjunct1] unfolding after_ticks_13
    by (simp add: newDirection_def default_settings_def floor_numeral_quotient)
  moreover have "growingDuration (handleWheelEvent 100 ?s14) = Some (Fin 2500)"
    using t14 [THEN conjunct2, THEN conjunct1] unfolding after_ticks_14
    by (simp add: newDirection_def default_settings_def)
  moreover have "jle (to_num (growingDuration ?s14)) (Fin 2749)"
    using t14 [THEN conjunct2, THEN conjunct2, THEN conjunct2, THEN conjunct1]
      whole_default_settings overshoot_default
    by (simp add: overshoot_def)
  moreover have "growingDuration ?s13 = Some (Fin 2419)"
    unfolding after_ticks_13 by simp
  ultimately show ?thesis by simp
qed

section \<open>The measurement, window by window\<close>

lemma counting_frame:
  assumes "estimator s =
     (Some True, ms @ [\<lparr>time = t, count = c, run = True\<rparr>], [CountFrames (length ms)], ts, fr, frv, fin)"
  shows "estimator (dispatch s AnimationFrame) =
     (Some True, ms @ [\<lparr>time = t, count = Suc c, run = True\<rparr>], [CountFrames (length ms)], ts, fr, frv, fin)"
  using assms by (simp add: estimator_def countFrames_def Let_def)

lemma counting_frames:
  assumes "estimator s =
     (Some True, ms @ [\<lparr>time = t, count = c, run = True\<rparr>], [CountFrames (length ms)], ts, fr, frv, fin)"
  shows "estimator (replay s (replicate n AnimationFrame)) =
     (Some True, ms @ [\<lparr>time = t, count = c + n, run = True\<rparr>], [CountFrames (length ms)], ts, fr, frv, fin)"
  using assms
proof (induction n arbitrary: s c)
  case 0
  then show ?case by (simp add: replay_def)
next
  case (Suc n)
  have "estimator (replay (dispatch s AnimationFrame) (replicate n AnimationFrame)) =
     (Some True, ms @ [\<lparr>time = t, count = Suc c + n, run = True\<rparr>], [CountFrames (length ms)], ts, fr, frv, fin)"
    by (rule Suc.IH [OF counting_frame [OF Suc.prems]])
  then show ?case by (simp add: replay_def del: dispatch.simps)
qed

lemma window_end:
  assumes "estimator s =
     (Some True, ms @ [\<lparr>time = t, count = c, run = True\<rparr>], [CountFrames (length ms)],
      [(t, StopCounting (length ms)), (t + 100, NextMeasurement (length ms))], fr, frv, fin)"
  shows "estimator (replay s [Timeout 0, AnimationFrame, Timeout 0]) =
     (let r = rate (Suc c) t;
          frv' = (if t = 3000 then frv @ [r] else frv);
          t' = nextTime t
      in if length frv' < 3
         then (Some True,
               ms @ [\<lparr>time = t', count = Suc c, run = False\<rparr>, \<lparr>time = t', count = 1, run = True\<rparr>],
               [CountFrames (Suc (length ms))],
               [(t', StopCounting (Suc (length ms))), (t' + 100, NextMeasurement (Suc (length ms)))],
               Some r, frv', fin)
         else (Some True, ms @ [\<lparr>time = t', count = Suc c, run = False\<rparr>], [], [],
               Some r, frv',
               Some (jround (jdiv (reduce_add frv') (Fin (of_nat (length frv')))))))"
  using assms
  by (simp add: estimator_def replay_def stopCounting_def countFrames_def nextMeasurement_def
      measureFrameRate_def rate_def Let_def nth_append list_update_append)



lemma measurement_window:
  assumes "measuring s ms t fr frv" "length (samples n t frv) < 3"
  shows "measuring (replay s (window n)) (ms @ [\<lparr>time = nextTime t, count = n + 2, run = False\<rparr>])
           (nextTime t) (Some (rate (n + 2) t)) (samples n t frv)"
proof -
  have "estimator (replay s (replicate n AnimationFrame)) =
     (Some True, ms @ [\<lparr>time = t, count = 1 + n, run = True\<rparr>], [CountFrames (length ms)],
      [(t, StopCounting (length ms)), (t + 100, NextMeasurement (length ms))], fr, frv, None)"
    using assms(1) unfolding measuring_def by (rule counting_frames)
  then show ?thesis
    using assms(2) unfolding window_def replay_append measuring_def
    by (simp add: window_end Let_def samples_def split: if_splits)
qed

lemma last_window:
  assumes "measuring s ms t fr frv" "\<not> length (samples n t frv) < 3"
  shows "estimator (replay s (window n)) =
     (Some True, ms @ [\<lparr>time = nextTime t, count = n + 2, run = False\<rparr>], [], [],
      Some (rate (n + 2) t), samples n t frv,
      Some (jround (jdiv (reduce_add (samples n t frv))
                         (Fin (of_nat (length (samples n t frv)))))))"
proof -
  have "estimator (replay s (replicate n AnimationFrame)) =
     (Some True, ms @ [\<lparr>time = t, count = 1 + n, run = True\<rparr>], [CountFrames (length ms)],
      [(t, StopCounting (length ms)), (t + 100, NextMeasurement (length ms))], fr, frv, None)"
    using assms(1) unfolding measuring_def by (rule counting_frames)
  then show ?thesis
    using assms(2) unfolding window_def replay_append
    by (simp add: window_end Let_def samples_def split: if_splits)
qed

lemma measuring_construct: "measuring (construct st False) [] 500 None []"
  by (simp add: measuring_def estimator_def construct_def handleTabVisibilityChange_def
      measureFrameRate_def countFrames_def Let_def)

lemma after_window_1:
  "measuring (replay (construct st False) (window n1))
     [\<lparr>time = 1000, count = n1 + 2, run = False\<rparr>] 1000 (Some (rate (n1 + 2) 500)) []"
  using measurement_window [OF measuring_construct, of n1]
  by (simp add: samples_def nextTime_def)

lemma after_window_2:
  "measuring (replay (construct st False) (window n1 @ window n2))
     [\<lparr>time = 1000, count = n1 + 2, run = False\<rparr>, \<lparr>time = 2000, count = n2 + 2, run = False\<rparr>]
     2000 (Some (rate (n2 + 2) 1000)) []"
  using measurement_window [OF after_window_1, of n2]
  by (simp add: samples_def nextTime_def replay_append)

lemma after_window_3:
  "measuring (replay (construct st False) (window n1 @ window n2 @ window n3))
     [\<lparr>time = 1000, count = n1 + 2, run = False\<rparr>, \<lparr>time = 2000, count = n2 + 2, run = False\<rparr>,
      \<lparr>time = 3000, count = n3 + 2, run = False\<rparr>]
     3000 (Some (rate (n3 + 2) 2000)) []"
  using measurement_window [OF after_window_2, of n3]
  by (simp add: samples_def nextTime_def replay_append)

lemma after_window_4:
  "measuring (replay (construct st False) (window n1 @ window n2 @ window n3 @ window n4))
     [\<lparr>time = 1000, count = n1 + 2, run = False\<rparr>, \<lparr>time = 2000, count = n2 + 2, run = False\<rparr>,
      \<lparr>time = 3000, count = n3 + 2, run = False\<rparr>, \<lparr>time = 3000, count = n4 + 2, run = False\<rparr>]
     3000 (Some (rate (n4 + 2) 3000)) [rate (n4 + 2) 3000]"
  using measurement_window [OF after_window_3, of n4]
  by (simp add: samples_def nextTime_def replay_append)

lemma after_window_5:
  "measuring
     (replay (construct st False) (window n1 @ window n2 @ window n3 @ window n4 @ window n5))
     [\<lparr>time = 1000, count = n1 + 2, run = False\<rparr>, \<lparr>time = 2000, count = n2 + 2, run = False\<rparr>,
      \<lparr>time = 3000, count = n3 + 2, run = False\<rparr>, \<lparr>time = 3000, count = n4 + 2, run = False\<rparr>,
      \<lparr>time = 3000, count = n5 + 2, run = False\<rparr>]
     3000 (Some (rate (n5 + 2) 3000)) [rate (n4 + 2) 3000, rate (n5 + 2) 3000]"
  using measurement_window [OF after_window_4, of n5]
  by (simp add: samples_def nextTime_def replay_append)

lemma after_window_6:
  "estimator
     (replay (construct st False)
        (window n1 @ window n2 @ window n3 @ window n4 @ window n5 @ window n6)) =
     (Some True,
      [\<lparr>time = 1000, count = n1 + 2, run = False\<rparr>, \<lparr>time = 2000, count = n2 + 2, run = False\<rparr>,
       \<lparr>time = 3000, count = n3 + 2, run = False\<rparr>, \<lparr>time = 3000, count = n4 + 2, run = False\<rparr>,
       \<lparr>time = 3000, count = n5 + 2, run = False\<rparr>, \<lparr>time = 3000, count = n6 + 2, run = False\<rparr>],
      [], [], Some (rate (n6 + 2) 3000),
      [rate (n4 + 2) 3000, rate (n5 + 2) 3000, rate (n6 + 2) 3000],
      Some (jround (jdiv (jadd (jadd (rate (n4 + 2) 3000) (rate (n5 + 2) 3000)) (rate (n6 + 2) 3000))
                         (Fin 3))))"
  using last_window [OF after_window_5, of n6]
  by (simp add: samples_def nextTime_def replay_append)



lemma measureFrameRate_samples: "frameRateValues (measureFrameRate t s) = frameRateValues s"
  by (simp add: measureFrameRate_def countFrames_def Let_def)


lemma handleTabVisibilityChange_samples:
  "frameRateValues (handleTabVisibilityChange s) = frameRateValues s"
  by (simp add: handleTabVisibilityChange_def Let_def measureFrameRate_samples)








lemma rate_180: "rate 180 3000 = Fin 60"
  by (simp add: rate_def floor_numeral_quotient)


section \<open>Visibility changes during the measurement\<close>

lemma countFrames_hidden: "isTabActive s \<noteq> Some True \<Longrightarrow> countFrames i s = s"
  by (simp add: countFrames_def)

lemma measureFrameRate_hidden: "isTabActive s \<noteq> Some True \<Longrightarrow> measureFrameRate t s = s"
  by (simp add: measureFrameRate_def)

lemma measureFrameRate_visible:
  assumes "isTabActive s = Some True"
  shows "measurements (measureFrameRate t s) = measurements s @ [\<lparr>time = t, count = 1, run = True\<rparr>]"
    and "animationFrames (measureFrameRate t s)
         = animationFrames s @ [CountFrames (length (measurements s))]"
    and "timeouts (measureFrameRate t s)
         = timeouts s @ [(t, StopCounting (length (measurements s))),
                         (t + 100, NextMeasurement (length (measurements s)))]"
  using assms by (simp_all add: measureFrameRate_def countFrames_def Let_def)

text \<open>
  C8. The claim: when the page becomes visible again, the window in progress resumes
  where it paused and does not restart. The handler calls \<open>measureFrameRate(500)\<close>:
  a window of 1000 ms interrupted after 11 counted frames is followed by a new
  window of 500 ms that starts counting at 1. If a frame ran while the page was
  hidden the old window has no counting callback left; if none ran, the old window
  goes on counting beside the new one.
\<close>

theorem visible_again_restarts:
  "estimator (replay (construct default_settings False) interrupted) =
     (Some True,
      [\<lparr>time = 1000, count = 30, run = False\<rparr>, \<lparr>time = 1000, count = 11, run = True\<rparr>],
      [CountFrames 1], [(1000, StopCounting 1), (1100, NextMeasurement 1)],
      Some (Fin 60), [], None)
   \<and> estimator (replay (construct default_settings False)
        (interrupted @ [VisibilityChange True, AnimationFrame, VisibilityChange False])) =
     (Some True,
      [\<lparr>time = 1000, count = 30, run = False\<rparr>, \<lparr>time = 1000, count = 11, run = True\<rparr>,
       \<lparr>time = 500, count = 1, run = True\<rparr>],
      [CountFrames 2],
      [(1000, StopCounting 1), (1100, NextMeasurement 1), (500, StopCounting 2),
       (600, NextMeasurement 2)],
      Some (Fin 60), [], None)
   \<and> estimator (replay (construct default_settings False)
        (interrupted @ [VisibilityChange True, VisibilityChange False])) =
     (Some True,
      [\<lparr>time = 1000, count = 30, run = False\<rparr>, \<lparr>time = 1000, count = 11, run = True\<rparr>,
       \<lparr>time = 500, count = 1, run = True\<rparr>],
      [CountFrames 1, CountFrames 2],
      [(1000, StopCounting 1), (1100, NextMeasurement 1), (500, StopCounting 2),
       (600, NextMeasurement 2)],
      Some (Fin 60), [], None)"
  by code_simp

text \<open>
  C8, amended: while \<open>isTabActive\<close> is not true, \<open>countFrames\<close> neither counts nor
  requests a frame and \<open>measureFrameRate\<close> does nothing; a change to hidden only
  clears \<open>isTabActive\<close>, it cancels no callback and no timeout. A change to visible
  with no final rate starts a new measurement with a window of 500 ms beside what
  is pending: the records of the earlier windows, the callbacks and the timeouts
  that are pending, and the samples retained so far are kept. A counting callback
  of an unfinished window that runs while the page is visible counts one more frame
  and requests the next one: when no frame was rendered while the page was hidden,
  the interrupted window of 1000 ms goes on from 11 to 12 at the first frame, beside
  the new window of 500 ms, which goes from 1 to 2. A change to visible with a final
  rate starts nothing.
\<close>

theorem visibility_and_sampling:
  "(isTabActive s \<noteq> Some True \<longrightarrow> countFrames i s = s \<and> measureFrameRate t s = s)
   \<and> (documentHidden s \<longrightarrow> handleTabVisibilityChange s = s\<lparr>isTabActive := Some False\<rparr>)
   \<and> (\<not> documentHidden s \<and> finalFrameRate s = None \<longrightarrow>
        handleTabVisibilityChange s = measureFrameRate 500 (s\<lparr>isTabActive := Some True\<rparr>)
        \<and> measurements (handleTabVisibilityChange s)
            = measurements s @ [\<lparr>time = 500, count = 1, run = True\<rparr>]
        \<and> animationFrames (handleTabVisibilityChange s)
            = animationFrames s @ [CountFrames (length (measurements s))]
        \<and> timeouts (handleTabVisibilityChange s)
            = timeouts s @ [(500, StopCounting (length (measurements s))),
                            (600, NextMeasurement (length (measurements s)))]
        \<and> frameRateValues (handleTabVisibilityChange s) = frameRateValues s)
   \<and> (\<not> documentHidden s \<and> finalFrameRate s \<noteq> None \<longrightarrow>
        handleTabVisibilityChange s = s\<lparr>isTabActive := Some True\<rparr>)
   \<and> (isTabActive s = Some True \<and> i < length (measurements s) \<and> run (measurements s ! i) \<longrightarrow>
        countFrames i s
        = s\<lparr>measurements :=
               (measurements s)[i := (measurements s ! i)\<lparr>count := count (measurements s ! i) + 1\<rparr>],
             animationFrames := animationFrames s @ [CountFrames i]\<rparr>)
   \<and> estimator (replay (construct default_settings False)
        (interrupted @ [VisibilityChange True, VisibilityChange False, AnimationFrame])) =
     (Some True,
      [\<lparr>time = 1000, count = 30, run = False\<rparr>, \<lparr>time = 1000, count = 12, run = True\<rparr>,
       \<lparr>time = 500, count = 2, run = True\<rparr>],
      [CountFrames 1, CountFrames 2],
      [(1000, StopCounting 1), (1100, NextMeasurement 1), (500, StopCounting 2),
       (600, NextMeasurement 2)],
      Some (Fin 60), [], None)"
proof (intro conjI impI)
  assume "isTabActive s \<noteq> Some True"
  then show "countFrames i s = s" "measureFrameRate t s = s"
    by (simp_all add: countFrames_hidden measureFrameRate_hidden)
next
  assume "documentHidden s"
  then show "handleTabVisibilityChange s = s\<lparr>isTabActive := Some False\<rparr>"
    by (simp add: handleTabVisibilityChange_def)
next
  assume a: "\<not> documentHidden s \<and> finalFrameRate s = None"
  then show h: "handleTabVisibilityChange s = measureFrameRate 500 (s\<lparr>isTabActive := Some True\<rparr>)"
    by (simp add: handleTabVisibilityChange_def)
  show "measurements (handleTabVisibilityChange s)
            = measurements s @ [\<lparr>time = 500, count = 1, run = True\<rparr>]"
    and "animationFrames (handleTabVisibilityChange s)
            = animationFrames s @ [CountFrames (length (measurements s))]"
    and "timeouts (handleTabVisibilityChange s)
            = timeouts s @ [(500, StopCounting (length (measurements s))),
                            (600, NextMeasurement (length (measurements s)))]"
    unfolding h by (simp_all add: measureFrameRate_visible)
  show "frameRateValues (handleTabVisibilityChange s) = frameRateValues s"
    by (rule handleTabVisibilityChange_samples)
next
  assume "\<not> documentHidden s \<and> finalFrameRate s \<noteq> None"
  then show "handleTabVisibilityChange s = s\<lparr>isTabActive := Some True\<rparr>"
    by (auto simp add: handleTabVisibilityChange_def)
next
  assume "isTabActive s = Some True \<and> i < length (measurements s) \<and> run (measurements s ! i)"
  then show "countFrames i s
        = s\<lparr>measurements :=
               (measurements s)[i := (measurements s ! i)\<lparr>count := count (measurements s ! i) + 1\<rparr>],
             animationFrames := animationFrames s @ [CountFrames i]\<rparr>"
    by (simp add: countFrames_def Let_def)
next
  show "estimator (replay (construct default_settings False)
        (interrupted @ [VisibilityChange True, VisibilityChange False, AnimationFrame])) =
     (Some True,
      [\<lparr>time = 1000, count = 30, run = False\<rparr>, \<lparr>time = 1000, count = 12, run = True\<rparr>,
       \<lparr>time = 500, count = 2, run = True\<rparr>],
      [CountFrames 1, CountFrames 2],
      [(1000, StopCounting 1), (1100, NextMeasurement 1), (500, StopCounting 2),
       (600, NextMeasurement 2)],
      Some (Fin 60), [], None)"
    by code_simp
qed

lemma interrupted_hidden:
  "replay (construct default_settings False) (interrupted @ [VisibilityChange True]) =
   \<lparr>settings = default_settings,
    stepTime = None, currentTime = None, scrollActive = None,
    scrollDirection = Null, growingDuration = None,
    cumulativeScrollQuantity = None, frameRate = Some (Fin 60),
    frameRateValues = [], finalFrameRate = None, isTabActive = Some False,
    documentHidden = True,
    measurements = [\<lparr>time = 1000, count = 30, run = False\<rparr>, \<lparr>time = 1000, count = 11, run = True\<rparr>],
    animationFrames = [CountFrames 1],
    timeouts = [(1000, StopCounting 1), (1100, NextMeasurement 1)],
    scrolled = []\<rparr>"
  by code_simp

lemma interrupted_visible_again:
  "replay (construct default_settings False)
     (interrupted @ [VisibilityChange True, VisibilityChange False]) =
   \<lparr>settings = default_settings,
    stepTime = None, currentTime = None, scrollActive = None,
    scrollDirection = Null, growingDuration = None,
    cumulativeScrollQuantity = None, frameRate = Some (Fin 60),
    frameRateValues = [], finalFrameRate = None, isTabActive = Some True,
    documentHidden = False,
    measurements = [\<lparr>time = 1000, count = 30, run = False\<rparr>, \<lparr>time = 1000, count = 11, run = True\<rparr>,
                    \<lparr>time = 500, count = 1, run = True\<rparr>],
    animationFrames = [CountFrames 1, CountFrames 2],
    timeouts = [(1000, StopCounting 1), (1100, NextMeasurement 1), (500, StopCounting 2),
                (600, NextMeasurement 2)],
    scrolled = []\<rparr>"
  by code_simp

lemma calibrated_final:
  "finalFrameRate (replay (construct default_settings False) (five_windows @ window 178))
   = Some (Fin 60)"
proof -
  have "estimator (replay (construct default_settings False)
      (window 28 @ window 58 @ window 118 @ window 178 @ window 178 @ window 178)) =
     (Some True,
      [\<lparr>time = 1000, count = 28 + 2, run = False\<rparr>, \<lparr>time = 2000, count = 58 + 2, run = False\<rparr>,
       \<lparr>time = 3000, count = 118 + 2, run = False\<rparr>, \<lparr>time = 3000, count = 178 + 2, run = False\<rparr>,
       \<lparr>time = 3000, count = 178 + 2, run = False\<rparr>, \<lparr>time = 3000, count = 178 + 2, run = False\<rparr>],
      [], [], Some (rate (178 + 2) 3000),
      [rate (178 + 2) 3000, rate (178 + 2) 3000, rate (178 + 2) 3000],
      Some (jround (jdiv (jadd (jadd (rate (178 + 2) 3000) (rate (178 + 2) 3000))
                               (rate (178 + 2) 3000)) (Fin 3))))"
    by (rule after_window_6)
  then show ?thesis
    by (simp add: estimator_def five_windows_def rate_180 floor_numeral_quotient)
qed

theorem visibility_and_sampling_witness:
  "countFrames 1 (replay (construct default_settings False) (interrupted @ [VisibilityChange True]))
     = replay (construct default_settings False) (interrupted @ [VisibilityChange True])
   \<and> isTabActive (handleTabVisibilityChange
        (replay (construct default_settings False) (interrupted @ [VisibilityChange True])))
     = Some False
   \<and> measurements (dispatch
        (replay (construct default_settings False) (interrupted @ [VisibilityChange True]))
        (VisibilityChange False))
     = [\<lparr>time = 1000, count = 30, run = False\<rparr>, \<lparr>time = 1000, count = 11, run = True\<rparr>,
        \<lparr>time = 500, count = 1, run = True\<rparr>]
   \<and> dispatch (replay (construct default_settings False) (five_windows @ window 178))
        (VisibilityChange False)
     = (replay (construct default_settings False) (five_windows @ window 178))
         \<lparr>documentHidden := False, isTabActive := Some True\<rparr>
   \<and> measurements (countFrames 1 (replay (construct default_settings False)
        (interrupted @ [VisibilityChange True, VisibilityChange False])))
     = [\<lparr>time = 1000, count = 30, run = False\<rparr>, \<lparr>time = 1000, count = 12, run = True\<rparr>,
        \<lparr>time = 500, count = 1, run = True\<rparr>]
   \<and> animationFrames (countFrames 1 (replay (construct default_settings False)
        (interrupted @ [VisibilityChange True, VisibilityChange False])))
     = [CountFrames 1, CountFrames 2, CountFrames 1]"
proof -
  let ?h = "replay (construct default_settings False) (interrupted @ [VisibilityChange True])"
  let ?v = "replay (construct default_settings False)
      (interrupted @ [VisibilityChange True, VisibilityChange False])"
  have r: "isTabActive ?v = Some True \<and> 1 < length (measurements ?v) \<and> run (measurements ?v ! 1)"
    unfolding interrupted_visible_again by simp
  have "countFrames 1 ?v
        = ?v\<lparr>measurements :=
               (measurements ?v)[1 := (measurements ?v ! 1)\<lparr>count := count (measurements ?v ! 1) + 1\<rparr>],
             animationFrames := animationFrames ?v @ [CountFrames 1]\<rparr>"
    by (rule visibility_and_sampling [where s = ?v and i = 1, THEN conjunct2, THEN conjunct2,
        THEN conjunct2, THEN conjunct2, THEN conjunct1, THEN mp, OF r])
  then have k: "measurements (countFrames 1 ?v)
     = [\<lparr>time = 1000, count = 30, run = False\<rparr>, \<lparr>time = 1000, count = 12, run = True\<rparr>,
        \<lparr>time = 500, count = 1, run = True\<rparr>]"
    "animationFrames (countFrames 1 ?v) = [CountFrames 1, CountFrames 2, CountFrames 1]"
    unfolding interrupted_visible_again by simp_all
  let ?c = "replay (construct default_settings False) (five_windows @ window 178)"
  have h: "isTabActive ?h \<noteq> Some True" "documentHidden ?h" "finalFrameRate ?h = None"
    "measurements ?h = [\<lparr>time = 1000, count = 30, run = False\<rparr>, \<lparr>time = 1000, count = 11, run = True\<rparr>]"
    unfolding interrupted_hidden by simp_all
  have v: "\<not> documentHidden (?h\<lparr>documentHidden := False\<rparr>)
           \<and> finalFrameRate (?h\<lparr>documentHidden := False\<rparr>) = None"
    using h(3) by simp
  have c: "\<not> documentHidden (?c\<lparr>documentHidden := False\<rparr>)
           \<and> finalFrameRate (?c\<lparr>documentHidden := False\<rparr>) \<noteq> None"
    using calibrated_final by simp
  have "countFrames 1 ?h = ?h"
    using visibility_and_sampling [where s = ?h and i = 1, THEN conjunct1, THEN mp, OF h(1)]
    by (rule conjunct1)
  moreover have "handleTabVisibilityChange ?h = ?h\<lparr>isTabActive := Some False\<rparr>"
    by (rule visibility_and_sampling [where s = ?h, THEN conjunct2, THEN conjunct1, THEN mp, OF h(2)])
  then have "isTabActive (handleTabVisibilityChange ?h) = Some False" by simp
  moreover have "measurements (handleTabVisibilityChange (?h\<lparr>documentHidden := False\<rparr>))
     = measurements (?h\<lparr>documentHidden := False\<rparr>) @ [\<lparr>time = 500, count = 1, run = True\<rparr>]"
    using visibility_and_sampling [where s = "?h\<lparr>documentHidden := False\<rparr>",
        THEN conjunct2, THEN conjunct2, THEN conjunct1, THEN mp, OF v]
    by (rule conjunct2 [THEN conjunct1])
  then have "measurements (dispatch ?h (VisibilityChange False))
     = [\<lparr>time = 1000, count = 30, run = False\<rparr>, \<lparr>time = 1000, count = 11, run = True\<rparr>,
        \<lparr>time = 500, count = 1, run = True\<rparr>]"
    by (simp add: h(4))
  moreover have "handleTabVisibilityChange (?c\<lparr>documentHidden := False\<rparr>)
     = ?c\<lparr>documentHidden := False\<rparr>\<lparr>isTabActive := Some True\<rparr>"
    by (rule visibility_and_sampling [where s = "?c\<lparr>documentHidden := False\<rparr>",
        THEN conjunct2, THEN conjunct2, THEN conjunct2, THEN conjunct1, THEN mp, OF c])
  then have "dispatch ?c (VisibilityChange False)
     = ?c\<lparr>documentHidden := False, isTabActive := Some True\<rparr>"
    by simp
  ultimately show ?thesis using k by (intro conjI)
qed

end
